theory Spec2Isabelle
  imports Main "HOL-Library.Sublist"
begin

section \<open>JavaScript values\<close>

text \<open>
  The client works on dynamically typed data: the decoded claims of the token, the
  arguments of its operations, the bodies it posts. They are modelled by one datatype of
  values. A string is a list of code units, here the 8-bit \<^typ>\<open>char\<close>: strings with code
  units above 255 are outside the model. Numbers are integers. An object is the list of
  its own enumerable properties in enumeration order (the keys are distinct); members
  inherited from a prototype are outside the model. A function value carries a label.
\<close>

datatype js_error =
    Error string
  | TypeError
  | URIError
  | SyntaxError
  | InvalidCharacterError

datatype jsval =
    JUndefined
  | JNull
  | JBool bool
  | JNum int
  | JStr string
  | JArr "jsval list"
  | JObj "(string \<times> jsval) list"
  | JFun string

text \<open>ToBoolean: what \<open>if (x)\<close>, \<open>!x\<close> and \<open>x || y\<close> test.\<close>

fun truthy :: "jsval \<Rightarrow> bool" where
  "truthy JUndefined = False"
| "truthy JNull = False"
| "truthy (JBool b) = b"
| "truthy (JNum n) = (n \<noteq> 0)"
| "truthy (JStr s) = (s \<noteq> [])"
| "truthy (JArr xs) = True"
| "truthy (JObj kvs) = True"
| "truthy (JFun f) = True"

fun typeof :: "jsval \<Rightarrow> string" where
  "typeof JUndefined = ''undefined''"
| "typeof JNull = ''object''"
| "typeof (JBool b) = ''boolean''"
| "typeof (JNum n) = ''number''"
| "typeof (JStr s) = ''string''"
| "typeof (JArr xs) = ''object''"
| "typeof (JObj kvs) = ''object''"
| "typeof (JFun f) = ''function''"

text \<open>\<open>a || b\<close> on values.\<close>

definition js_or :: "jsval \<Rightarrow> jsval \<Rightarrow> jsval" where
  "js_or a b = (if truthy a then a else b)"

subsection \<open>Decimal numerals and array indices\<close>

definition is_digit :: "char \<Rightarrow> bool" where
  "is_digit c = (c \<in> set ''0123456789'')"

definition digit_char :: "nat \<Rightarrow> char" where
  "digit_char d = ''0123456789'' ! d"

fun string_of_nat :: "nat \<Rightarrow> string" where
  "string_of_nat n =
     (if n < 10 then [digit_char n]
      else string_of_nat (n div 10) @ [digit_char (n mod 10)])"

definition string_of_int :: "int \<Rightarrow> string" where
  "string_of_int i =
     (if i < 0 then CHR ''-'' # string_of_nat (nat (- i)) else string_of_nat (nat i))"

definition digit_val :: "char \<Rightarrow> nat" where
  "digit_val c = of_char c - 48"

definition nat_of_digits :: "string \<Rightarrow> nat" where
  "nat_of_digits s = foldl (\<lambda>n c. 10 * n + digit_val c) 0 s"

text \<open>A property key is an array index when it is a canonical decimal numeral.\<close>

definition index_of_key :: "string \<Rightarrow> nat option" where
  "index_of_key k =
     (if k = [] then None
      else if \<not> list_all is_digit k then None
      else if hd k = CHR ''0'' \<and> k \<noteq> ''0'' then None
      else Some (nat_of_digits k))"

subsection \<open>Property access\<close>

text \<open>
  \<open>x.k\<close> and \<open>x[k]\<close>. Reading a property of \<open>undefined\<close> or \<open>null\<close> raises a
  TypeError; a property that is not there reads as \<open>undefined\<close>.
\<close>

fun get_prop :: "jsval \<Rightarrow> string \<Rightarrow> js_error + jsval" where
  "get_prop JUndefined k = Inl TypeError"
| "get_prop JNull k = Inl TypeError"
| "get_prop (JObj kvs) k = Inr (case map_of kvs k of Some v \<Rightarrow> v | None \<Rightarrow> JUndefined)"
| "get_prop (JArr xs) k =
     Inr (case index_of_key k of
            Some i \<Rightarrow> if i < length xs then xs ! i else JUndefined
          | None \<Rightarrow> if k = ''length'' then JNum (int (length xs)) else JUndefined)"
| "get_prop (JStr s) k =
     Inr (case index_of_key k of
            Some i \<Rightarrow> if i < length s then JStr [s ! i] else JUndefined
          | None \<Rightarrow> if k = ''length'' then JNum (int (length s)) else JUndefined)"
| "get_prop (JBool b) k = Inr JUndefined"
| "get_prop (JNum n) k = Inr JUndefined"
| "get_prop (JFun f) k = Inr JUndefined"

text \<open>\<open>x.k = v\<close> on an object: an existing property keeps its place, a new one is added last.\<close>

fun update_key :: "string \<Rightarrow> jsval \<Rightarrow> (string \<times> jsval) list \<Rightarrow> (string \<times> jsval) list" where
  "update_key k v [] = [(k, v)]"
| "update_key k v (p # ps) = (if fst p = k then (k, v) # ps else p # update_key k v ps)"

fun set_prop :: "jsval \<Rightarrow> string \<Rightarrow> jsval \<Rightarrow> jsval" where
  "set_prop (JObj kvs) k v = JObj (update_key k v kvs)"
| "set_prop x k v = x"

text \<open>\<open>Object.keys(x)\<close> for a value that is not \<open>undefined\<close> or \<open>null\<close>.\<close>

fun object_keys :: "jsval \<Rightarrow> string list" where
  "object_keys (JObj kvs) = map fst kvs"
| "object_keys (JArr xs) = map string_of_nat [0..<length xs]"
| "object_keys (JStr s) = map string_of_nat [0..<length s]"
| "object_keys x = []"

text \<open>\<open>xs[0]\<close> on a list of keys: \<open>undefined\<close> when there is none.\<close>

fun first_key :: "string list \<Rightarrow> jsval" where
  "first_key [] = JUndefined"
| "first_key (k # ks) = JStr k"

subsection \<open>Conversion to a string\<close>

fun join_with :: "string \<Rightarrow> string list \<Rightarrow> string" where
  "join_with sep [] = []"
| "join_with sep [x] = x"
| "join_with sep (x # y # ys) = x @ sep @ join_with sep (y # ys)"

text \<open>
  ToString, as string concatenation applies it. An array joins its elements with commas,
  \<open>undefined\<close> and \<open>null\<close> elements as the empty string; a plain object is
  \<open>[object Object]\<close>; a function gives its label.
\<close>

fun to_string :: "jsval \<Rightarrow> string" where
  "to_string JUndefined = ''undefined''"
| "to_string JNull = ''null''"
| "to_string (JBool b) = (if b then ''true'' else ''false'')"
| "to_string (JNum n) = string_of_int n"
| "to_string (JStr s) = s"
| "to_string (JArr xs) =
     join_with '','' (map (\<lambda>x. if x = JUndefined \<or> x = JNull then [] else to_string x) xs)"
| "to_string (JObj kvs) = ''[object Object]''"
| "to_string (JFun f) = f"

subsection \<open>Exceptions\<close>

text \<open>A computation that may throw; \<open>try_bind\<close> runs the rest when it did not.\<close>

definition try_bind :: "'e + 'a \<Rightarrow> ('a \<Rightarrow> 'e + 'b) \<Rightarrow> 'e + 'b" where
  "try_bind m f = (case m of Inl e \<Rightarrow> Inl e | Inr x \<Rightarrow> f x)"

subsection \<open>Array methods\<close>

text \<open>
  \<open>x.map(f)\<close>: only an array has the method (the claims come from \<open>JSON.parse\<close>, so no
  object carries a function); the callback may throw, which ends the traversal.
\<close>

fun map_err :: "('a \<Rightarrow> 'e + 'b) \<Rightarrow> 'a list \<Rightarrow> 'e + 'b list" where
  "map_err f [] = Inr []"
| "map_err f (x # xs) =
     (case f x of
        Inl e \<Rightarrow> Inl e
      | Inr y \<Rightarrow> (case map_err f xs of Inl e \<Rightarrow> Inl e | Inr ys \<Rightarrow> Inr (y # ys)))"

fun array_map :: "(jsval \<Rightarrow> js_error + jsval) \<Rightarrow> jsval \<Rightarrow> js_error + jsval list" where
  "array_map f (JArr xs) = map_err f xs"
| "array_map f x = Inl TypeError"

text \<open>
  \<open>xs.reduce(function (previous, current) { return previous || current; })\<close>, with no
  initial value: the first element starts the accumulation, an empty array raises a
  TypeError.
\<close>

fun reduce_or :: "jsval list \<Rightarrow> js_error + jsval" where
  "reduce_or [] = Inl TypeError"
| "reduce_or (x # xs) = Inr (foldl js_or x xs)"

section \<open>Regular expressions of the client\<close>

text \<open>\<open>s.split(sep)\<close> for a separator of one character.\<close>

fun split_on :: "char \<Rightarrow> string \<Rightarrow> string list" where
  "split_on sep [] = [[]]"
| "split_on sep (c # cs) =
     (if c = sep then [] # split_on sep cs
      else (case split_on sep cs of [] \<Rightarrow> [[c]] | x # xs \<Rightarrow> (c # x) # xs))"

text \<open>
  The first match of a literal followed by one or more characters other than \<open>stop\<close>:
  the patterns \<open>/jwt=([^&]+)/\<close> and \<open>name=([^;]+)\<close>. The result is the captured group.
\<close>

fun first_capture :: "string \<Rightarrow> char \<Rightarrow> string \<Rightarrow> string option" where
  "first_capture lit stop [] = None"
| "first_capture lit stop (c # cs) =
     (let v = takeWhile (\<lambda>x. x \<noteq> stop) (drop (length lit) (c # cs))
      in if prefix lit (c # cs) \<and> v \<noteq> [] then Some v
         else first_capture lit stop cs)"

text \<open>\<open>s.replace(/lit([^stop]+)/, '')\<close>: the first match is removed.\<close>

fun remove_first_capture :: "string \<Rightarrow> char \<Rightarrow> string \<Rightarrow> string" where
  "remove_first_capture lit stop [] = []"
| "remove_first_capture lit stop (c # cs) =
     (let v = takeWhile (\<lambda>x. x \<noteq> stop) (drop (length lit) (c # cs))
      in if prefix lit (c # cs) \<and> v \<noteq> []
         then dropWhile (\<lambda>x. x \<noteq> stop) (drop (length lit) (c # cs))
         else c # remove_first_capture lit stop cs)"

text \<open>\<open>s.match(/[^\/]+$/)\<close>: the characters after the last slash, when there are any.\<close>

definition last_segment :: "string \<Rightarrow> string option" where
  "last_segment s =
     (let seg = rev (takeWhile (\<lambda>c. c \<noteq> CHR ''/'') (rev s))
      in if seg = [] then None else Some seg)"

text \<open>
  \<open>s.match('(^.+?/)v\\d/')\<close>, group 1. The dot matches any character but a line
  terminator, the group is lazy and anchored at the start: the result is the shortest
  prefix of one or more such characters that is followed by \<open>/v\<close>, a digit and \<open>/\<close>,
  with that slash.
\<close>

definition is_line_terminator :: "char \<Rightarrow> bool" where
  "is_line_terminator c = (c = CHR 0x0A \<or> c = CHR 0x0D)"

fun starts_version :: "string \<Rightarrow> bool" where
  "starts_version (a # b # d # e # rest) =
     (a = CHR ''/'' \<and> b = CHR ''v'' \<and> is_digit d \<and> e = CHR ''/'')"
| "starts_version s = False"

fun version_prefix :: "string \<Rightarrow> string \<Rightarrow> string option" where
  "version_prefix acc [] = None"
| "version_prefix acc (c # cs) =
     (if acc \<noteq> [] \<and> starts_version (c # cs) then Some (acc @ [c])
      else if is_line_terminator c then None
      else version_prefix (acc @ [c]) cs)"

section \<open>The platform and the world\<close>

text \<open>
  The built-in functions the code calls are parameters of the model: each takes a string
  and returns a string or a value, or throws. \<open>Buffer_base64_toString s\<close> is
  \<open>new Buffer(s, 'base64').toString()\<close>. Every theorem below holds for whatever these
  functions do.
\<close>

record platform =
  JSON_parse :: "string \<Rightarrow> js_error + jsval"
  Buffer_base64_toString :: "string \<Rightarrow> js_error + string"
  window_atob :: "string \<Rightarrow> js_error + string"
  window_btoa :: "string \<Rightarrow> js_error + string"
  decodeURIComponent :: "string \<Rightarrow> js_error + string"
  encodeURIComponent :: "string \<Rightarrow> js_error + string"

text \<open>
  The names of \<open>strings.errors\<close> the client uses (the module \<open>./strings\<close> holds their
  texts). \<open>NewError k\<close> is the value \<open>new Error(strings.errors.k)\<close>, \<open>Val v\<close> any other
  argument handed to a callback.
\<close>

datatype errkey =
    JWT_NOT_FOUND
  | NOT_A_JWT
  | MALFORMED_JWT_CLAIMS
  | SESSION_EXPIRED
  | NO_AUTH_TOKEN_HEADER

datatype cb_arg = NewError errkey | Val jsval

text \<open>
  The second argument of \<open>requestExecutor.execute\<close>: a callback of the caller's, the
  function the constructor builds around its \<open>cb\<close> and \<open>opts.token\<close>, or the function
  \<open>verifyPasswordResetToken\<close> builds around its callback.
\<close>

datatype continuation =
    Callback jsval
  | HandshakeCallback jsval jsval
  | SaveSessionThenCallback jsval

record request =
  req_method :: string
  req_url :: string
  req_json :: "jsval option"
  req_callback :: continuation

text \<open>
  What the code reads and writes outside itself: \<open>window.location.href\<close>, the string
  \<open>document.cookie\<close> reads as, the strings assigned to \<open>document.cookie\<close>, the arguments
  of \<open>window.location.replace\<close>, the calls of \<open>requestExecutor.execute\<close>, each in order,
  and \<open>requestExecutor.authToken\<close>.
\<close>

record world =
  location_href :: string
  document_cookie :: string
  cookie_writes :: "string list"
  location_replaces :: "string list"
  executed :: "request list"
  authToken :: jsval

definition execute :: "request \<Rightarrow> world \<Rightarrow> world" where
  "execute r w = w\<lparr>executed := executed w @ [r]\<rparr>"

definition utils_noop :: jsval where
  "utils_noop = JFun ''utils.noop''"

section \<open>utils.js\<close>

definition is_upper_hex :: "char \<Rightarrow> bool" where
  "is_upper_hex c = (c \<in> set ''0123456789ABCDEF'')"

definition hex_val :: "char \<Rightarrow> nat" where
  "hex_val c = (if is_digit c then of_char c - 48 else of_char c - 55)"

text \<open>\<open>s.replace(/%([0-9A-F]{2})/g, ...)\<close> with \<open>String.fromCharCode('0x' + p1)\<close>.\<close>

fun percent_bytes :: "string \<Rightarrow> string" where
  "percent_bytes (a # b # c # rest) =
     (if a = CHR ''%'' \<and> is_upper_hex b \<and> is_upper_hex c
      then char_of (16 * hex_val b + hex_val c) # percent_bytes rest
      else a # percent_bytes (b # c # rest))"
| "percent_bytes s = s"

definition b64EncodeUnicode :: "platform \<Rightarrow> string \<Rightarrow> js_error + string" where
  "b64EncodeUnicode P str =
     try_bind (encodeURIComponent P str) (\<lambda>e. window_btoa P (percent_bytes e))"

text \<open>The exported \<open>base64.atob\<close> is \<open>base64Encode\<close>, the exported \<open>base64.btoa\<close> is \<open>base64Decode\<close>.\<close>

definition base64Encode :: "platform \<Rightarrow> string \<Rightarrow> js_error + string" where
  "base64Encode P str = Buffer_base64_toString P str"

definition base64Decode :: "platform \<Rightarrow> string \<Rightarrow> js_error + string" where
  "base64Decode P str = b64EncodeUnicode P str"

text \<open>
  \<open>getCookie\<close>: the name is spliced into the pattern; the only caller passes
  \<open>idSiteJwt\<close>, which has no metacharacter, so it is matched literally. \<open>None\<close> is the
  \<open>undefined\<close> the function returns when nothing matches.
\<close>

definition getCookie :: "string \<Rightarrow> string \<Rightarrow> string option" where
  "getCookie name cookie = first_capture (name @ ''='') (CHR '';'') cookie"

text \<open>
  \<open>parseJwt\<close> returns \<open>false\<close> or an object of \<open>header\<close>, \<open>body\<close>, \<open>signature\<close> and a
  \<open>toString\<close> that returns the raw token. \<open>split('.', 3)\<close> keeps the first three pieces.
\<close>

datatype parsed_jwt =
    ReturnedFalse
  | ParsedJwt jsval jsval string string

definition parseJwt :: "platform \<Rightarrow> jsval \<Rightarrow> js_error + parsed_jwt" where
  "parseJwt P rawJwt =
     (if \<not> truthy rawJwt then Inr ReturnedFalse
      else (case rawJwt of
          JStr s \<Rightarrow>
            (let segments = take 3 (split_on (CHR ''.'') s)
             in if length segments \<noteq> 3 then Inr ReturnedFalse
                else try_bind (try_bind (window_atob P (segments ! 0)) (JSON_parse P)) (\<lambda>header.
                     try_bind (try_bind (window_atob P (segments ! 1)) (JSON_parse P)) (\<lambda>body.
                     Inr (ParsedJwt header body (segments ! 2) s))))
        | _ \<Rightarrow> Inl TypeError))"

section \<open>The client\<close>

record client =
  jwt :: jsval
  jwtPayload :: jsval
  appHref :: jsval
  sptoken :: jsval
  baseurl :: jsval
  idSiteParentResource :: jsval
  requireMfa :: jsval

definition organizationNameKeyCookieKey :: string where
  "organizationNameKeyCookieKey = ''sp.onk''"

definition organizationNameKeyCookieExpiration :: string where
  "organizationNameKeyCookieExpiration = ''expires=Fri, 31 Dec 9999 23:59:59 GMT''"

definition setCachedOrganizationNameKey :: "platform \<Rightarrow> jsval \<Rightarrow> world \<Rightarrow> (js_error + unit) \<times> world" where
  "setCachedOrganizationNameKey P nameKey w =
     (case encodeURIComponent P organizationNameKeyCookieKey of
        Inl e \<Rightarrow> (Inl e, w)
      | Inr k \<Rightarrow>
          (case encodeURIComponent P (to_string nameKey) of
             Inl e \<Rightarrow> (Inl e, w)
           | Inr v \<Rightarrow>
               (Inr (), w\<lparr>cookie_writes := cookie_writes w @
                  [k @ ''='' @ v @ ''; '' @ organizationNameKeyCookieExpiration]\<rparr>)))"

definition getJwtFromUrl :: "platform \<Rightarrow> world \<Rightarrow> (js_error + string) \<times> world" where
  "getJwtFromUrl P w =
     (let jwtMatch = first_capture ''jwt='' (CHR ''&'') (location_href w);
          jwtCookie = getCookie ''idSiteJwt'' (document_cookie w)
      in case jwtMatch of
           Some m \<Rightarrow>
             (decodeURIComponent P m,
              w\<lparr>location_replaces := location_replaces w @
                  [remove_first_capture ''?jwt='' (CHR ''&'') (location_href w)]\<rparr>)
         | None \<Rightarrow>
             (case jwtCookie of
                Some c \<Rightarrow>
                  if c \<noteq> [] then (Inr c, w\<lparr>cookie_writes := cookie_writes w @ [''idSiteJwt='']\<rparr>)
                  else (Inr [], w)
              | None \<Rightarrow> (Inr [], w)))"

definition getSessionJwt :: "platform \<Rightarrow> world \<Rightarrow> js_error + parsed_jwt" where
  "getSessionJwt P w = parseJwt P (authToken w)"

definition getSessionToken :: "world \<Rightarrow> jsval" where
  "getSessionToken w = authToken w"

definition saveSessionToken :: "world \<Rightarrow> world" where
  "saveSessionToken w =
     w\<lparr>cookie_writes := cookie_writes w @ [''idSiteJwt='' @ to_string (authToken w)]\<rparr>"

text \<open>\<open>self.appHref.match(/[^\/]+$/)[0]\<close>: only a string has \<open>match\<close>, and no match is \<open>null\<close>.\<close>

fun match_last_segment :: "jsval \<Rightarrow> js_error + string" where
  "match_last_segment (JStr s) =
     (case last_segment s of Some seg \<Rightarrow> Inr seg | None \<Rightarrow> Inl TypeError)"
| "match_last_segment x = Inl TypeError"

definition getPasswordResetToken :: "jsval \<Rightarrow> jsval \<Rightarrow> js_error + jsval" where
  "getPasswordResetToken payload href =
     try_bind (get_prop payload ''sp_token'') (\<lambda>sp_token.
     if truthy sp_token then Inr sp_token
     else
       try_bind (match_last_segment href) (\<lambda>applicationId.
       try_bind (get_prop payload ''scope'') (\<lambda>scope.
       try_bind (get_prop scope ''application'') (\<lambda>applications.
       try_bind (get_prop applications applicationId) (\<lambda>application.
       try_bind (array_map (\<lambda>contents. get_prop contents ''passwordResetToken'') application) (\<lambda>fields.
       try_bind (reduce_or fields) (\<lambda>field.
       try_bind (array_map (\<lambda>contents. Inr (if typeof contents = ''object'' then contents else JNull)) field) (\<lambda>objects.
       try_bind (reduce_or objects) (\<lambda>passwordResetTokens.
       Inr (if truthy passwordResetTokens then first_key (object_keys passwordResetTokens)
            else JNull))))))))))"

text \<open>\<open>self.appHref.match('(^.+?/)v\\d/')[1]\<close>.\<close>

fun match_baseurl :: "jsval \<Rightarrow> js_error + jsval" where
  "match_baseurl (JStr s) =
     (case version_prefix [] s of Some b \<Rightarrow> Inr (JStr b) | None \<Rightarrow> Inl TypeError)"
| "match_baseurl x = Inl TypeError"

text \<open>
  Lines 46 to 62 of the constructor: what it derives from the decoded claims. The
  organization name key is written to the cookie on the way.
\<close>

definition Client_context :: "platform \<Rightarrow> jsval \<Rightarrow> jsval \<Rightarrow> world \<Rightarrow> (js_error + client) \<times> world" where
  "Client_context P token payload w =
     (case try_bind (get_prop payload ''app_href'') (\<lambda>href.
           try_bind (getPasswordResetToken payload href) (\<lambda>spt.
           try_bind (match_baseurl href) (\<lambda>base. Inr (href, spt, base)))) of
        Inl e \<Rightarrow> (Inl e, w)
      | Inr (href, spt, base) \<Rightarrow>
          (case get_prop payload ''onk'' of
             Inl e \<Rightarrow> (Inl e, w)
           | Inr onk \<Rightarrow>
               (case (if truthy onk then setCachedOrganizationNameKey P onk w else (Inr (), w)) of
                  (Inl e, w') \<Rightarrow> (Inl e, w')
                | (Inr u, w') \<Rightarrow>
                    (try_bind (get_prop payload ''asnk'') (\<lambda>asnk.
                     try_bind (if truthy asnk then get_prop payload ''ash'' else Inr href) (\<lambda>parent.
                     try_bind (get_prop payload ''require_mfa'') (\<lambda>mfa.
                     Inr \<lparr>jwt = token, jwtPayload = payload, appHref = href, sptoken = spt,
                          baseurl = base, idSiteParentResource = parent,
                          requireMfa = (if truthy mfa then mfa else JUndefined)\<rparr>))),
                     w'))))"

text \<open>
  The constructor either throws, or returns \<open>deferCallback(cb, [error])\<close> (the module
  \<open>./defer-callback\<close> then calls \<open>cb\<close> with these arguments), or builds the client and
  hands the handshake request to the executor.
\<close>

datatype construction =
    Threw js_error
  | DeferCallback jsval "cb_arg list"
  | Constructed client

definition handshake_request :: "client \<Rightarrow> jsval \<Rightarrow> jsval \<Rightarrow> request" where
  "handshake_request c cb token =
     \<lparr>req_method = ''GET'',
      req_url = to_string (idSiteParentResource c) @ ''?expand=idSiteModel,customData'',
      req_json = Some (JBool True),
      req_callback = HandshakeCallback cb token\<rparr>"

text \<open>\<open>opts\<close> and \<open>cb\<close>, the first two lines of the constructor.\<close>

definition Client_opts :: "jsval \<Rightarrow> jsval" where
  "Client_opts options = (if typeof options = ''object'' then options else JObj [])"

definition Client_cb :: "jsval \<Rightarrow> jsval \<Rightarrow> jsval" where
  "Client_cb options readyCallback =
     (if typeof options = ''function'' then options else js_or readyCallback utils_noop)"

text \<open>\<open>opts.token || self.getJwtFromUrl()\<close>.\<close>

definition Client_jwt :: "platform \<Rightarrow> jsval \<Rightarrow> world \<Rightarrow> (js_error + jsval) \<times> world" where
  "Client_jwt P token w =
     (if truthy token then (Inr token, w)
      else (case getJwtFromUrl P w of (r, w') \<Rightarrow> (map_sum id JStr r, w')))"

definition Client :: "platform \<Rightarrow> jsval \<Rightarrow> jsval \<Rightarrow> world \<Rightarrow> construction \<times> world" where
  "Client P options readyCallback w =
     (let opts = Client_opts options;
          cb = Client_cb options readyCallback
      in case get_prop opts ''token'' of
           Inl e \<Rightarrow> (Threw e, w)
         | Inr token \<Rightarrow>
             (case Client_jwt P token w of
                (Inl e, w1) \<Rightarrow> (Threw e, w1)
              | (Inr t, w1) \<Rightarrow>
                  if \<not> truthy t then (DeferCallback cb [NewError JWT_NOT_FOUND], w1)
                  else (case t of
                      JStr s \<Rightarrow>
                        (let jwtSegments = split_on (CHR ''.'') s
                         in if length jwtSegments < 2 \<or> length jwtSegments > 3
                            then (DeferCallback cb [NewError NOT_A_JWT], w1)
                            else (case try_bind (base64Encode P (jwtSegments ! 1)) (JSON_parse P) of
                                Inl e \<Rightarrow> (DeferCallback cb [NewError MALFORMED_JWT_CLAIMS], w1)
                              | Inr payload \<Rightarrow>
                                  (case Client_context P t payload w1 of
                                     (Inl e, w2) \<Rightarrow> (Threw e, w2)
                                   | (Inr c, w2) \<Rightarrow>
                                       (Constructed c, execute (handshake_request c cb token) w2))))
                    | _ \<Rightarrow> (Threw TypeError, w1))))"

text \<open>
  The function the constructor passes to \<open>execute\<close>, run with the executor's \<open>err\<close> and
  \<open>application\<close>. \<open>Inr args\<close>: \<open>cb\<close> is called with \<open>args\<close>.
\<close>

definition handshake_callback :: "jsval \<Rightarrow> jsval \<Rightarrow> jsval \<Rightarrow> jsval \<Rightarrow> world \<Rightarrow> (js_error + cb_arg list) \<times> world" where
  "handshake_callback cb token err application w =
     (if truthy err then
        (case get_prop err ''status'' of
           Inl e \<Rightarrow> (Inl e, w)
         | Inr status \<Rightarrow>
             if status = JNum 401 then (Inr [NewError SESSION_EXPIRED], w)
             else (Inr [Val err], w))
      else if \<not> truthy (authToken w) then (Inr [NewError NO_AUTH_TOKEN_HEADER], w)
      else
        (let w' = (if \<not> truthy token then saveSessionToken w else w)
         in (try_bind (get_prop application ''idSiteModel'') (\<lambda>model.
             try_bind (get_prop application ''customData'') (\<lambda>customData.
             Inr [Val JNull, Val model, Val customData])), w')))"

section \<open>Operations\<close>

text \<open>An operation throws (\<open>Inl\<close>) or returns (\<open>Inr ()\<close>), and leaves a world.\<close>

text \<open>The payload \<open>data\<close> of \<open>login\<close>: the chain of tests on \<open>creds\<close>, then the account store.\<close>

definition login_data :: "platform \<Rightarrow> jsval \<Rightarrow> js_error + jsval" where
  "login_data P creds =
     (if \<not> truthy creds then Inl (Error ''must provide an object'')
      else try_bind (get_prop creds ''providerData'') (\<lambda>providerData.
        if truthy providerData then Inr creds
        else try_bind (get_prop creds ''login'') (\<lambda>login_field.
          if truthy login_field then
            try_bind (get_prop creds ''password'') (\<lambda>password.
            try_bind (base64Decode P (to_string login_field @ '':'' @ to_string password)) (\<lambda>v.
            Inr (JObj [(''type'', JStr ''basic''), (''value'', JStr v)])))
          else Inl (Error ''unsupported credentials object''))))"

definition login_accountStore :: "jsval \<Rightarrow> jsval \<Rightarrow> js_error + jsval" where
  "login_accountStore creds data =
     try_bind (get_prop creds ''accountStore'') (\<lambda>accountStore.
       Inr (if truthy accountStore then set_prop data ''accountStore'' accountStore else data))"

text \<open>\<open>queryString\<close>; the empty string stands for its \<open>null\<close>, which is appended as \<open>''\<close>.\<close>

definition login_queryString :: "platform \<Rightarrow> jsval \<Rightarrow> js_error + string" where
  "login_queryString P options =
     (if truthy options then
        try_bind (get_prop options ''redirect'') (\<lambda>redirect.
          if truthy redirect then
            try_bind (encodeURIComponent P (to_string redirect)) (\<lambda>r. Inr (''?redirect='' @ r))
          else Inr [])
      else Inr [])"

definition login :: "platform \<Rightarrow> client \<Rightarrow> jsval \<Rightarrow> jsval \<Rightarrow> jsval \<Rightarrow> world \<Rightarrow> (js_error + unit) \<times> world" where
  "login P c credentials options callback w =
     (let creds = (if typeof credentials = ''object'' then credentials else JNull);
          callback' = (if typeof options = ''function'' then options else callback)
      in case try_bind (login_data P creds) (\<lambda>data.
              try_bind (login_accountStore creds data) (\<lambda>data'.
              try_bind (login_queryString P options) (\<lambda>queryString.
              Inr (data', queryString)))) of
           Inl e \<Rightarrow> (Inl e, w)
         | Inr (data', queryString) \<Rightarrow>
             (Inr (),
              execute
                \<lparr>req_method = ''POST'',
                 req_url = to_string (appHref c) @ ''/loginAttempts'' @ queryString,
                 req_json = Some data',
                 req_callback = Callback (js_or callback' utils_noop)\<rparr> w))"

definition register :: "client \<Rightarrow> jsval \<Rightarrow> jsval \<Rightarrow> world \<Rightarrow> (js_error + unit) \<times> world" where
  "register c data callback w =
     (if typeof data \<noteq> ''object''
      then (Inl (Error ''client.register() must be called with a data object''), w)
      else (Inr (),
            execute
              \<lparr>req_method = ''POST'',
               req_url = to_string (idSiteParentResource c) @ ''/accounts'',
               req_json = Some data,
               req_callback = Callback (js_or callback utils_noop)\<rparr> w))"

definition verifyEmailToken :: "client \<Rightarrow> jsval \<Rightarrow> world \<Rightarrow> (js_error + unit) \<times> world" where
  "verifyEmailToken c callback w =
     (if typeof callback \<noteq> ''function''
      then (Inl (Error ''client.verifyEmailToken() takes a function as it's only argument''), w)
      else (Inr (),
            execute
              \<lparr>req_method = ''POST'',
               req_url = to_string (baseurl c) @ ''v1/accounts/emailVerificationTokens/''
                           @ to_string (sptoken c),
               req_json = None,
               req_callback = Callback callback\<rparr> w))"

definition verifyPasswordResetToken :: "client \<Rightarrow> jsval \<Rightarrow> world \<Rightarrow> (js_error + unit) \<times> world" where
  "verifyPasswordResetToken c callback w =
     (if typeof callback \<noteq> ''function''
      then (Inl (Error ''client.verifyPasswordResetToken() takes a function as it's only argument''), w)
      else (Inr (),
            execute
              \<lparr>req_method = ''GET'',
               req_url = to_string (appHref c) @ ''/passwordResetTokens/'' @ to_string (sptoken c),
               req_json = Some (JBool True),
               req_callback = SaveSessionThenCallback callback\<rparr> w))"

definition sendPasswordResetEmail :: "client \<Rightarrow> jsval \<Rightarrow> jsval \<Rightarrow> world \<Rightarrow> (js_error + unit) \<times> world" where
  "sendPasswordResetEmail c emailOrObject callback w =
     (case (if typeof emailOrObject = ''string'' then Inr (JObj [(''email'', emailOrObject)])
            else if typeof emailOrObject = ''object'' then Inr emailOrObject
            else Inl (Error ''sendPasswordResetEmail must be called with an email/username as the first argument, or an options object'')) of
        Inl e \<Rightarrow> (Inl e, w)
      | Inr body \<Rightarrow>
          (Inr (),
           execute
             \<lparr>req_method = ''POST'',
              req_url = to_string (appHref c) @ ''/passwordResetTokens'',
              req_json = Some body,
              req_callback = Callback (js_or callback utils_noop)\<rparr> w))"

section \<open>Example data\<close>

text \<open>A page opened without a token in its address, with no cookie and no credential yet.\<close>

definition example_world :: world where
  "example_world =
     \<lparr>location_href = ''https://id.example.com/#/'', document_cookie = [],
      cookie_writes = [], location_replaces = [], executed = [], authToken = JUndefined\<rparr>"

definition example_application :: jsval where
  "example_application = JObj [(''idSiteModel'', JObj []), (''customData'', JObj [])]"

text \<open>
  Claims of a password reset link. In the first the \<open>passwordResetToken\<close> of the
  application's entry is an object keyed by the slug; in the second it is an array that
  holds such an object, after an entry that has no \<open>passwordResetToken\<close>.
\<close>

definition example_claims_object_token :: jsval where
  "example_claims_object_token =
     JObj [(''app_href'', JStr ''https://x/v1/applications/app1''),
           (''scope'', JObj [(''application'', JObj [(''app1'',
              JArr [JObj [(''passwordResetToken'', JObj [(''slug123'', JObj [])])]])])])]"

definition example_claims_array_token :: jsval where
  "example_claims_array_token =
     JObj [(''app_href'', JStr ''https://x/v1/applications/app1''),
           (''scope'', JObj [(''application'', JObj [(''app1'',
              JArr [JObj [(''loginAttempt'', JArr [JStr ''create''])],
                    JObj [(''passwordResetToken'', JArr [JObj [(''slug123'', JObj [])]])]])])])]"



text \<open>
  Claims with a direct \<open>sp_token\<close>, and the client the constructor derives from them;
  the same with an account store (\<open>asnk\<close>, \<open>ash\<close>), which moves the parent resource.
\<close>

definition example_claims_reset :: jsval where
  "example_claims_reset =
     JObj [(''app_href'', JStr ''https://x/v1/applications/app1''), (''sp_token'', JStr ''tok123'')]"

definition example_client_reset :: client where
  "example_client_reset =
     \<lparr>jwt = JStr ''e30.e30.sig'', jwtPayload = example_claims_reset,
      appHref = JStr ''https://x/v1/applications/app1'', sptoken = JStr ''tok123'',
      baseurl = JStr ''https://x/'',
      idSiteParentResource = JStr ''https://x/v1/applications/app1'',
      requireMfa = JUndefined\<rparr>"

definition example_claims_org :: jsval where
  "example_claims_org =
     JObj [(''app_href'', JStr ''https://x/v1/applications/app1''), (''sp_token'', JStr ''tok123''),
           (''asnk'', JStr ''org1''), (''ash'', JStr ''https://x/v1/organizations/org1'')]"

definition example_client_org :: client where
  "example_client_org =
     \<lparr>jwt = JStr ''e30.e30.sig'', jwtPayload = example_claims_org,
      appHref = JStr ''https://x/v1/applications/app1'', sptoken = JStr ''tok123'',
      baseurl = JStr ''https://x/'',
      idSiteParentResource = JStr ''https://x/v1/organizations/org1'',
      requireMfa = JUndefined\<rparr>"

text \<open>Credentials of a social login that also carry a \<open>login\<close>, and of a password login.\<close>

definition example_social_credentials :: "(string \<times> jsval) list" where
  "example_social_credentials =
     [(''providerData'', JObj [(''providerId'', JStr ''google''), (''accessToken'', JStr ''abc'')]),
      (''login'', JStr ''jo'')]"

definition example_password_credentials :: "(string \<times> jsval) list" where
  "example_password_credentials = [(''login'', JStr ''jo''), (''password'', JStr ''pw'')]"

section \<open>What the patterns of the token source look for\<close>






section \<open>The handshake\<close>

lemma handshake_saves_session_token:
  assumes "\<not> truthy err" and "truthy (authToken w)" and "\<not> truthy token"
  shows "cookie_writes (snd (handshake_callback cb token err application w)) =
           cookie_writes w @ [''idSiteJwt='' @ to_string (authToken w)]"
  using assms by (simp add: handshake_callback_def saveSessionToken_def)

text \<open>
  Claim C2. When the executor reports no error and its \<open>authToken\<close> is still empty
  (falsy), the function the constructor handed to it calls \<open>cb\<close> with
  \<open>new Error(strings.errors.NO_AUTH_TOKEN_HEADER)\<close> as its only argument, and nothing is
  assigned to \<open>document.cookie\<close>: the world is left as it was.
\<close>

theorem handshake_without_renewal_header:
  assumes "\<not> truthy err" and "\<not> truthy (authToken w)"
  shows "handshake_callback cb token err application w = (Inr [NewError NO_AUTH_TOKEN_HEADER], w)
       \<and> cookie_writes (snd (handshake_callback cb token err application w)) = cookie_writes w"
  using assms by (simp add: handshake_callback_def)

theorem handshake_without_renewal_header_witness:
  "\<not> truthy JNull \<and> \<not> truthy (authToken example_world)
   \<and> handshake_callback (JFun ''cb'') JUndefined JNull example_application example_world
       = (Inr [NewError NO_AUTH_TOKEN_HEADER], example_world)
   \<and> cookie_writes (snd (handshake_callback (JFun ''cb'') JUndefined JNull
        example_application example_world)) = []"
  using handshake_without_renewal_header [of JNull example_world "JFun ''cb''" JUndefined
      example_application]
  by (simp add: example_world_def)

section \<open>The password reset token\<close>

lemma foldl_js_or_truthy: "truthy a \<Longrightarrow> foldl js_or a xs = a"
  by (induction xs) (simp_all add: js_or_def)

lemma foldl_js_or_skip:
  "\<not> truthy a \<Longrightarrow> list_all (\<lambda>v. \<not> truthy v) fs \<Longrightarrow> truthy t \<Longrightarrow>
     foldl js_or a (fs @ t # rest) = t"
  by (induction fs arbitrary: a) (simp_all add: js_or_def foldl_js_or_truthy)

text \<open>The reduction keeps the first truthy element, whatever follows it.\<close>

lemma reduce_or_first_truthy:
  assumes "list_all (\<lambda>v. \<not> truthy v) fs" and "truthy t"
  shows "reduce_or (fs @ t # rest) = Inr t"
proof (cases fs)
  case Nil
  with assms show ?thesis by (simp add: foldl_js_or_truthy)
next
  case (Cons a as)
  with assms have "foldl js_or a (as @ t # rest) = t"
    by (intro foldl_js_or_skip) simp_all
  with Cons show ?thesis by (simp del: foldl_append)
qed

lemma map_err_append:
  "map_err f (xs @ ys) =
     (case map_err f xs of Inl e \<Rightarrow> Inl e
      | Inr vs \<Rightarrow> (case map_err f ys of Inl e \<Rightarrow> Inl e | Inr ws \<Rightarrow> Inr (vs @ ws)))"
  by (induction xs) (auto split: sum.splits)

lemma map_err_all:
  "list_all (\<lambda>x. case f x of Inl e \<Rightarrow> False | Inr v \<Rightarrow> Q v) xs \<Longrightarrow>
     \<exists>vs. map_err f xs = Inr vs \<and> list_all Q vs"
  by (induction xs) (auto split: sum.splits)

lemma get_prop_readable: "x \<noteq> JUndefined \<Longrightarrow> x \<noteq> JNull \<Longrightarrow> \<exists>v. get_prop x k = Inr v"
  by (cases x) simp_all

lemma map_err_readable:
  "list_all (\<lambda>e. e \<noteq> JUndefined \<and> e \<noteq> JNull) xs \<Longrightarrow>
     \<exists>vs. map_err (\<lambda>contents. get_prop contents k) xs = Inr vs"
proof (induction xs)
  case Nil
  show ?case by simp
next
  case (Cons a xs)
  then obtain v vs where
    "get_prop a k = Inr v" "map_err (\<lambda>contents. get_prop contents k) xs = Inr vs"
    using get_prop_readable [of a k] by auto
  then show ?case by simp
qed

text \<open>The pattern \<open>/[^\/]+$/\<close> finds what follows the last slash.\<close>

lemma last_segment_append:
  assumes "seg \<noteq> []" and "CHR ''/'' \<notin> set seg"
  shows "last_segment (pre @ CHR ''/'' # seg) = Some seg"
proof -
  have "takeWhile (\<lambda>c. c \<noteq> CHR ''/'') (rev seg @ CHR ''/'' # rev pre) = rev seg"
    using assms(2) by (subst takeWhile_append2) auto
  then show ?thesis using assms(1) by (simp add: last_segment_def)
qed

lemma getPasswordResetToken_array_example:
  "getPasswordResetToken example_claims_array_token (JStr ''https://x/v1/applications/app1'')
     = Inr (JStr ''slug123'')"
  by (simp add: getPasswordResetToken_def example_claims_array_token_def try_bind_def
      last_segment_def js_or_def)

text \<open>
  Claim C1, as the code has it. The claims have no truthy \<open>sp_token\<close>, \<open>appHref\<close> ends in
  \<open>/appId\<close>, and \<open>scope.application[appId]\<close> is an array of entries. Entries whose
  \<open>passwordResetToken\<close> is missing (or falsy) are skipped; the first entry that carries one
  wins, whatever the later entries hold (they must be readable: not \<open>undefined\<close> or
  \<open>null\<close>). When the value of that entry is a one-entry array \<open>[{slug: x, ...}]\<close>,
  the resolution returns \<open>slug\<close>. The value has to be an array: the code calls
  \<open>map\<close> on it.
\<close>

theorem getPasswordResetToken_first_entry_wins:
  assumes sp: "get_prop payload ''sp_token'' = Inr sp_token" "\<not> truthy sp_token"
    and href: "href = pre @ CHR ''/'' # appId" "appId \<noteq> []" "CHR ''/'' \<notin> set appId"
    and scope: "get_prop payload ''scope'' = Inr scope"
      "get_prop scope ''application'' = Inr applications"
      "get_prop applications appId = Inr (JArr (skipped @ entry # later))"
    and skipped: "list_all (\<lambda>e. case get_prop e ''passwordResetToken'' of
                     Inl x \<Rightarrow> False | Inr v \<Rightarrow> \<not> truthy v) skipped"
    and entry: "get_prop entry ''passwordResetToken'' = Inr (JArr [JObj ((slug, x) # others)])"
    and later: "list_all (\<lambda>e. e \<noteq> JUndefined \<and> e \<noteq> JNull) later"
  shows "getPasswordResetToken payload (JStr href) = Inr (JStr slug)"
proof -
  let ?f = "\<lambda>contents. get_prop contents ''passwordResetToken''"
  let ?winner = "JArr [JObj ((slug, x) # others)]"
  obtain vs where vs: "map_err ?f skipped = Inr vs" "list_all (\<lambda>v. \<not> truthy v) vs"
    using map_err_all [OF skipped] by blast
  obtain ws where ws: "map_err ?f later = Inr ws"
    using map_err_readable [OF later] by blast
  have fields: "map_err ?f (skipped @ entry # later) = Inr (vs @ ?winner # ws)"
    using vs ws entry by (simp add: map_err_append)
  have field: "reduce_or (vs @ ?winner # ws) = Inr ?winner"
    using vs(2) by (simp add: reduce_or_first_truthy)
  have seg: "match_last_segment (JStr href) = Inr appId"
    using href by (simp add: last_segment_append)
  show ?thesis
    using sp scope seg fields field
    by (simp add: getPasswordResetToken_def try_bind_def)
qed

theorem getPasswordResetToken_first_entry_wins_witness:
  "get_prop example_claims_array_token ''sp_token'' = Inr JUndefined
   \<and> \<not> truthy JUndefined
   \<and> ''https://x/v1/applications/app1'' = ''https://x/v1/applications'' @ CHR ''/'' # ''app1''
   \<and> CHR ''/'' \<notin> set ''app1''
   \<and> list_all (\<lambda>e. case get_prop e ''passwordResetToken'' of
         Inl x \<Rightarrow> False | Inr v \<Rightarrow> \<not> truthy v) [JObj [(''loginAttempt'', JArr [JStr ''create''])]]
   \<and> getPasswordResetToken example_claims_array_token (JStr ''https://x/v1/applications/app1'')
       = Inr (JStr ''slug123'')"
proof -
  let ?skipped = "[JObj [(''loginAttempt'', JArr [JStr ''create''])]]"
  let ?entry = "JObj [(''passwordResetToken'', JArr [JObj [(''slug123'', JObj [])]])]"
  let ?applications = "JObj [(''app1'', JArr (?skipped @ ?entry # []))]"
  let ?scope = "JObj [(''application'', ?applications)]"
  have sp: "get_prop example_claims_array_token ''sp_token'' = Inr JUndefined"
    by (simp add: example_claims_array_token_def)
  have falsy: "\<not> truthy JUndefined"
    by simp
  have href: "''https://x/v1/applications/app1'' = ''https://x/v1/applications'' @ CHR ''/'' # ''app1''"
    by simp
  have appId: "''app1'' \<noteq> []" "CHR ''/'' \<notin> set ''app1''"
    by simp_all
  have scope: "get_prop example_claims_array_token ''scope'' = Inr ?scope"
    by (simp add: example_claims_array_token_def)
  have applications: "get_prop ?scope ''application'' = Inr ?applications"
    by simp
  have application: "get_prop ?applications ''app1'' = Inr (JArr (?skipped @ ?entry # []))"
    by simp
  have skipped: "list_all (\<lambda>e. case get_prop e ''passwordResetToken'' of
         Inl x \<Rightarrow> False | Inr v \<Rightarrow> \<not> truthy v) ?skipped"
    by simp
  have entry: "get_prop ?entry ''passwordResetToken'' = Inr (JArr [JObj ((''slug123'', JObj []) # [])])"
    by simp
  have later: "list_all (\<lambda>e. e \<noteq> JUndefined \<and> e \<noteq> JNull) []"
    by simp
  note getPasswordResetToken_first_entry_wins
    [OF sp falsy href appId scope applications application skipped entry later]
  with sp falsy href appId skipped show ?thesis
    by (intro conjI)
qed

text \<open>
  The claim as the specification states it fails: with
  \<open>scope.application.app1 = [{passwordResetToken: {slug123: {}}}]\<close> the value the first
  reduction yields is a plain object, which has no \<open>map\<close>, and the resolution throws a
  TypeError instead of returning \<open>slug123\<close>.
\<close>

theorem getPasswordResetToken_object_value_throws:
  "getPasswordResetToken example_claims_object_token (JStr ''https://x/v1/applications/app1'')
     = Inl TypeError"
  by (simp add: getPasswordResetToken_def example_claims_object_token_def try_bind_def
      last_segment_def)

section \<open>The token source\<close>


lemma first_capture_here:
  assumes "c \<noteq> stop"
  shows "first_capture lit stop (lit @ c # rest) \<noteq> None"
proof (cases lit)
  case Nil
  with assms show ?thesis by (simp add: Let_def)
next
  case (Cons l ls)
  have "takeWhile (\<lambda>x. x \<noteq> stop) (drop (length lit) (lit @ c # rest)) \<noteq> []"
    using assms by simp
  moreover have "prefix lit (lit @ c # rest)" by simp
  ultimately show ?thesis
    unfolding Cons by (simp add: Let_def del: drop_append)
qed

lemma first_capture_occurs:
  assumes "c \<noteq> stop"
  shows "first_capture lit stop (pre @ lit @ c # rest) \<noteq> None"
proof (induction pre)
  case Nil
  show ?case using first_capture_here [OF assms] by simp
next
  case (Cons p ps)
  then show ?case by (simp add: Let_def)
qed











section \<open>The base URL\<close>

text \<open>
  The lazy group stops at the first place, after at least one character, where \<open>/v\<close>,
  a digit and \<open>/\<close> follow.
\<close>

lemma version_prefix_first:
  assumes "starts_version m"
    and "list_all (\<lambda>c. \<not> is_line_terminator c) p"
    and "acc @ p \<noteq> []"
    and "\<forall>k<length p. (acc \<noteq> [] \<or> 0 < k) \<longrightarrow> \<not> starts_version (drop k p @ m)"
  shows "version_prefix acc (p @ m) = Some (acc @ p @ [CHR ''/''])"
  using assms
proof (induction p arbitrary: acc)
  case Nil
  then obtain a b d e rest where m: "m = a # b # d # e # rest"
    by (cases m rule: starts_version.cases) auto
  with Nil show ?case by simp
next
  case (Cons c p)
  have here: "\<not> (acc \<noteq> [] \<and> starts_version (c # p @ m))"
    using Cons.prems(4) by auto
  have later: "\<forall>k<length p. \<not> starts_version (drop k p @ m)"
    using Cons.prems(4) by (metis Suc_less_eq drop_Suc_Cons length_Cons zero_less_Suc)
  have "version_prefix (acc @ [c]) (p @ m) = Some ((acc @ [c]) @ p @ [CHR ''/''])"
    using Cons.prems(1,2) later by (intro Cons.IH) auto
  with here Cons.prems(2) show ?case by simp
qed

text \<open>
  Claim C6, as the code has it. When the first \<open>/v<digit>/\<close> of \<open>appHref\<close> comes after
  a non-empty prefix \<open>p\<close> that holds no line terminator, \<open>baseurl\<close> is \<open>p\<close> with the
  slash that follows it.
\<close>

theorem match_baseurl_version_prefix:
  assumes href: "href = p @ CHR ''/'' # CHR ''v'' # d # CHR ''/'' # rest"
    and digit: "is_digit d"
    and nonempty: "p \<noteq> []"
    and line: "list_all (\<lambda>c. \<not> is_line_terminator c) p"
    and first: "list_all (\<lambda>k. \<not> starts_version (drop k href)) [0..<length p]"
  shows "match_baseurl (JStr href) = Inr (JStr (p @ ''/''))"
proof -
  let ?m = "CHR ''/'' # CHR ''v'' # d # CHR ''/'' # rest"
  have "starts_version ?m" using digit by simp
  moreover have "\<forall>k<length p. ([] \<noteq> [] \<or> 0 < k) \<longrightarrow> \<not> starts_version (drop k p @ ?m)"
    using first href by (auto simp: list_all_iff)
  ultimately have "version_prefix [] (p @ ?m) = Some ([] @ p @ [CHR ''/''])"
    using line nonempty by (intro version_prefix_first) simp_all
  then show ?thesis using href by simp
qed

theorem match_baseurl_version_prefix_witness:
  "''https://x/v1/applications/app1''
      = ''https://x'' @ CHR ''/'' # CHR ''v'' # CHR ''1'' # CHR ''/'' # ''applications/app1''
   \<and> is_digit (CHR ''1'')
   \<and> list_all (\<lambda>c. \<not> is_line_terminator c) ''https://x''
   \<and> list_all (\<lambda>k. \<not> starts_version (drop k ''https://x/v1/applications/app1''))
        [0..<length ''https://x'']
   \<and> match_baseurl (JStr ''https://x/v1/applications/app1'') = Inr (JStr ''https://x/'')"
proof -
  have href: "''https://x/v1/applications/app1''
      = ''https://x'' @ CHR ''/'' # CHR ''v'' # CHR ''1'' # CHR ''/'' # ''applications/app1''"
    by simp
  have digit: "is_digit (CHR ''1'')"
    by (simp add: is_digit_def)
  have nonempty: "''https://x'' \<noteq> []"
    by simp
  have line: "list_all (\<lambda>c. \<not> is_line_terminator c) ''https://x''"
    by (simp add: is_line_terminator_def)
  have first: "list_all (\<lambda>k. \<not> starts_version (drop k ''https://x/v1/applications/app1''))
        [0..<length ''https://x'']"
    by (simp add: upt_rec is_digit_def)
  have "match_baseurl (JStr ''https://x/v1/applications/app1'') = Inr (JStr (''https://x'' @ ''/''))"
    by (rule match_baseurl_version_prefix [OF href digit nonempty line first])
  then have "match_baseurl (JStr ''https://x/v1/applications/app1'') = Inr (JStr ''https://x/'')"
    by simp
  with href digit line first show ?thesis
    by (intro conjI)
qed

text \<open>
  The claim as stated, for every \<open>appHref\<close> that contains \<open>/v<digit>/\<close>, fails where
  nothing precedes the first occurrence: the group needs one character at least, so for
  \<open>/v1/v2/\<close> the code gives \<open>/v1/\<close>, not the prefix \<open>/\<close> that ends with the slash
  of the first occurrence. It fails too where a line terminator precedes it: the dot does
  not match one, \<open>match\<close> gives \<open>null\<close>, and reading its element 1 throws.
\<close>

theorem match_baseurl_leading_version:
  "starts_version (drop 0 ''/v1/v2/'')
   \<and> match_baseurl (JStr ''/v1/v2/'') = Inr (JStr ''/v1/'')
   \<and> match_baseurl (JStr ''/v1/v2/'') \<noteq> Inr (JStr (take 1 ''/v1/v2/''))
   \<and> match_baseurl (JStr (CHR 0x0A # ''x/v1/users'')) = Inl TypeError"
  by (simp add: is_digit_def is_line_terminator_def)

lemma example_client_reset_context:
  "Client_context P (JStr ''e30.e30.sig'') example_claims_reset w = (Inr example_client_reset, w)"
  by (simp add: Client_context_def example_claims_reset_def example_client_reset_def
      getPasswordResetToken_def try_bind_def is_digit_def is_line_terminator_def)

lemma example_client_org_context:
  "Client_context P (JStr ''e30.e30.sig'') example_claims_org w = (Inr example_client_org, w)"
  by (simp add: Client_context_def example_claims_org_def example_client_org_def
      getPasswordResetToken_def try_bind_def is_digit_def is_line_terminator_def)

text \<open>What the constructor stores in the client, when it builds one.\<close>

lemma Client_context_fields:
  assumes "Client_context P token payload w = (Inr c, w')"
  shows "get_prop payload ''app_href'' = Inr (appHref c)
       \<and> getPasswordResetToken payload (appHref c) = Inr (sptoken c)
       \<and> match_baseurl (appHref c) = Inr (baseurl c)
       \<and> (\<exists>asnk. get_prop payload ''asnk'' = Inr asnk
            \<and> (if truthy asnk then get_prop payload ''ash'' = Inr (idSiteParentResource c)
                else idSiteParentResource c = appHref c))"
proof -
  obtain href spt base where first:
    "get_prop payload ''app_href'' = Inr href"
    "getPasswordResetToken payload href = Inr spt"
    "match_baseurl href = Inr base"
    using assms
    by (auto simp: Client_context_def try_bind_def split: sum.splits prod.splits)
  obtain onk where onk: "get_prop payload ''onk'' = Inr onk"
    using assms first
    by (auto simp: Client_context_def try_bind_def split: sum.splits prod.splits)
  obtain asnk parent mfa where rest:
    "get_prop payload ''asnk'' = Inr asnk"
    "(if truthy asnk then get_prop payload ''ash'' else Inr href) = Inr parent"
    "get_prop payload ''require_mfa'' = Inr mfa"
    using assms first onk
    by (auto simp: Client_context_def try_bind_def split: sum.splits prod.splits if_splits)
  have "c = \<lparr>jwt = token, jwtPayload = payload, appHref = href, sptoken = spt,
             baseurl = base, idSiteParentResource = parent,
             requireMfa = (if truthy mfa then mfa else JUndefined)\<rparr>"
    using assms first onk rest
    by (auto simp: Client_context_def try_bind_def split: sum.splits prod.splits if_splits)
  with first rest show ?thesis
    by (auto split: if_splits)
qed

text \<open>
  A token of two or three segments whose claims decode: the constructor builds the
  client and hands the handshake request to the executor.
\<close>

lemma Client_constructs:
  assumes "get_prop (Client_opts options) ''token'' = Inr token"
    and "Client_jwt P token w = (Inr (JStr s), w1)"
    and "s \<noteq> []"
    and "length (split_on (CHR ''.'') s) \<in> {2, 3}"
    and "try_bind (base64Encode P (split_on (CHR ''.'') s ! 1)) (JSON_parse P) = Inr payload"
    and "Client_context P (JStr s) payload w1 = (Inr c, w2)"
  shows "Client P options readyCallback w =
           (Constructed c,
            execute (handshake_request c (Client_cb options readyCallback) token) w2)"
  using assms by (auto simp add: Client_def Let_def)

section \<open>Decoding the token\<close>

text \<open>The number of pieces \<open>split('.')\<close> gives is one more than the number of dots.\<close>

lemma length_split_on: "length (split_on sep s) = Suc (length (filter (\<lambda>c. c = sep) s))"
  by (induction s) (auto split: list.splits)

text \<open>
  Claim C5, as the code has it. The token is \<open>opts.token\<close>, or else what the token
  source resolves. When it is a non-empty string whose number of dot-separated segments
  is not 2 or 3, the constructor returns \<open>deferCallback(cb, [new Error(NOT_A_JWT)])\<close>:
  the completion callback receives the \<open>NOT_A_JWT\<close> error. Nothing is decoded.
\<close>

theorem Client_not_a_jwt:
  assumes "get_prop (Client_opts options) ''token'' = Inr token"
    and "Client_jwt P token w = (Inr (JStr s), w1)"
    and "s \<noteq> []"
    and "length (split_on (CHR ''.'') s) \<notin> {2, 3}"
  shows "Client P options readyCallback w =
           (DeferCallback (Client_cb options readyCallback) [NewError NOT_A_JWT], w1)"
proof -
  have "length (split_on (CHR ''.'') s) < 2 \<or> 3 < length (split_on (CHR ''.'') s)"
    using assms(4) by auto
  then show ?thesis
    using assms(1,2,3) by (auto simp add: Client_def Let_def)
qed

theorem Client_not_a_jwt_witness:
  "length (split_on (CHR ''.'') ''a.b.c.d'') \<notin> {2, 3}
   \<and> (\<forall>P. Client P (JObj [(''token'', JStr ''a.b.c.d'')]) (JFun ''cb'') example_world
         = (DeferCallback (JFun ''cb'') [NewError NOT_A_JWT], example_world))"
proof -
  let ?options = "JObj [(''token'', JStr ''a.b.c.d'')]"
  have token: "get_prop (Client_opts ?options) ''token'' = Inr (JStr ''a.b.c.d'')"
    by (simp add: Client_opts_def)
  have jwt: "Client_jwt P (JStr ''a.b.c.d'') example_world = (Inr (JStr ''a.b.c.d''), example_world)"
    for P
    by (simp add: Client_jwt_def)
  have nonempty: "''a.b.c.d'' \<noteq> []"
    by simp
  have count: "length (split_on (CHR ''.'') ''a.b.c.d'') \<notin> {2, 3}"
    by simp
  have cb: "Client_cb ?options (JFun ''cb'') = JFun ''cb''"
    by (simp add: Client_cb_def js_or_def)
  have "Client P ?options (JFun ''cb'') example_world
          = (DeferCallback (JFun ''cb'') [NewError NOT_A_JWT], example_world)" for P
    using Client_not_a_jwt [OF token jwt nonempty count, of P "JFun ''cb''"] cb by simp
  with count show ?thesis
    by (intro conjI allI)
qed

text \<open>
  The claim as stated, for every token string, fails at the empty string: it has one
  segment, but an empty \<open>opts.token\<close> counts as no token, and when the location and the
  cookie hold none either the callback receives \<open>JWT_NOT_FOUND\<close>.
\<close>

theorem Client_empty_token_not_found:
  "length (split_on (CHR ''.'') []) \<notin> {2, 3}
   \<and> (\<forall>P. Client P (JObj [(''token'', JStr [])]) (JFun ''cb'') example_world
         = (DeferCallback (JFun ''cb'') [NewError JWT_NOT_FOUND], example_world))"
  by (simp add: Client_def Client_opts_def Client_cb_def Client_jwt_def getJwtFromUrl_def
      getCookie_def example_world_def js_or_def Let_def)

section \<open>The session token\<close>

text \<open>
  Claim C9, as the code has it. \<open>parseJwt\<close> returns \<open>false\<close> for a string with fewer
  than three dot-separated segments (the empty string among them). With three segments
  or more it never returns \<open>false\<close>: \<open>split('.', 3)\<close> keeps the first three, the first two
  are decoded (which may throw), and the result holds the third as signature. So
  \<open>getSessionJwt\<close> returns \<open>false\<close> when the credential has two segments.
\<close>

theorem parseJwt_segments:
  "(length (split_on (CHR ''.'') s) < 3 \<longrightarrow> parseJwt P (JStr s) = Inr ReturnedFalse)
   \<and> (3 \<le> length (split_on (CHR ''.'') s) \<longrightarrow>
        parseJwt P (JStr s) =
          try_bind (try_bind (window_atob P (split_on (CHR ''.'') s ! 0)) (JSON_parse P)) (\<lambda>header.
          try_bind (try_bind (window_atob P (split_on (CHR ''.'') s ! 1)) (JSON_parse P)) (\<lambda>body.
          Inr (ParsedJwt header body (split_on (CHR ''.'') s ! 2) s)))
        \<and> parseJwt P (JStr s) \<noteq> Inr ReturnedFalse)
   \<and> (authToken w = JStr s \<and> length (split_on (CHR ''.'') s) = 2 \<longrightarrow>
        getSessionJwt P w = Inr ReturnedFalse)"
proof (intro conjI impI)
  assume "length (split_on (CHR ''.'') s) < 3"
  then show "parseJwt P (JStr s) = Inr ReturnedFalse"
    by (simp add: parseJwt_def Let_def)
next
  assume three: "3 \<le> length (split_on (CHR ''.'') s)"
  then have "s \<noteq> []" by auto
  with three show eq: "parseJwt P (JStr s) =
          try_bind (try_bind (window_atob P (split_on (CHR ''.'') s ! 0)) (JSON_parse P)) (\<lambda>header.
          try_bind (try_bind (window_atob P (split_on (CHR ''.'') s ! 1)) (JSON_parse P)) (\<lambda>body.
          Inr (ParsedJwt header body (split_on (CHR ''.'') s ! 2) s)))"
    by (simp add: parseJwt_def Let_def min_def)
  show "parseJwt P (JStr s) \<noteq> Inr ReturnedFalse"
    unfolding eq by (auto simp: try_bind_def split: sum.splits)
next
  assume "authToken w = JStr s \<and> length (split_on (CHR ''.'') s) = 2"
  then show "getSessionJwt P w = Inr ReturnedFalse"
    by (simp add: getSessionJwt_def parseJwt_def Let_def)
qed

theorem parseJwt_segments_witness:
  "length (split_on (CHR ''.'') ''e30.e30'') < 3
   \<and> (\<forall>P. parseJwt P (JStr ''e30.e30'') = Inr ReturnedFalse)
   \<and> 3 \<le> length (split_on (CHR ''.'') ''e30.e30.sig'')
   \<and> (\<forall>P. parseJwt P (JStr ''e30.e30.sig'') \<noteq> Inr ReturnedFalse)
   \<and> authToken (example_world\<lparr>authToken := JStr ''e30.e30''\<rparr>) = JStr ''e30.e30''
   \<and> length (split_on (CHR ''.'') ''e30.e30'') = 2
   \<and> (\<forall>P. getSessionJwt P (example_world\<lparr>authToken := JStr ''e30.e30''\<rparr>) = Inr ReturnedFalse)"
proof -
  let ?w = "example_world\<lparr>authToken := JStr ''e30.e30''\<rparr>"
  have two: "length (split_on (CHR ''.'') ''e30.e30'') < 3"
    by simp
  have three: "3 \<le> length (split_on (CHR ''.'') ''e30.e30.sig'')"
    by simp
  have credential: "authToken ?w = JStr ''e30.e30''"
    by simp
  have exactly: "length (split_on (CHR ''.'') ''e30.e30'') = 2"
    by simp
  have a: "parseJwt P (JStr ''e30.e30'') = Inr ReturnedFalse" for P
    using parseJwt_segments [of "''e30.e30''" P] two by blast
  have b: "parseJwt P (JStr ''e30.e30.sig'') \<noteq> Inr ReturnedFalse" for P
    using parseJwt_segments [of "''e30.e30.sig''" P] three by blast
  have c: "getSessionJwt P ?w = Inr ReturnedFalse" for P
    using parseJwt_segments [of "''e30.e30''" P ?w] credential exactly by blast
  show ?thesis
    using two a three b credential exactly c by (intro conjI allI)
qed

text \<open>
  The claim as stated fails for four segments: \<open>parseJwt\<close> does not return \<open>false\<close>
  for \<open>a.b.c.d\<close>, whatever the platform's \<open>atob\<close> and \<open>JSON.parse\<close> do with \<open>a\<close> and
  \<open>b\<close>.
\<close>

theorem parseJwt_four_segments_not_false:
  "length (split_on (CHR ''.'') ''a.b.c.d'') = 4
   \<and> (\<forall>P. parseJwt P (JStr ''a.b.c.d'') \<noteq> Inr ReturnedFalse)"
  by (auto simp: parseJwt_def Let_def try_bind_def split: sum.splits)

section \<open>Requests of the operations\<close>

text \<open>
  Claim C4, as the code has it. Called with a string or an object,
  \<open>sendPasswordResetEmail\<close> posts to \<open>appHref\<close> suffixed with \<open>/passwordResetTokens\<close>,
  whatever the parent resource of the client is.
\<close>

theorem sendPasswordResetEmail_posts_to_appHref:
  assumes "typeof emailOrObject = ''string'' \<or> typeof emailOrObject = ''object''"
  shows "sendPasswordResetEmail c emailOrObject callback w =
           (Inr (), execute
              \<lparr>req_method = ''POST'',
               req_url = to_string (appHref c) @ ''/passwordResetTokens'',
               req_json = Some (if typeof emailOrObject = ''string''
                                then JObj [(''email'', emailOrObject)] else emailOrObject),
               req_callback = Callback (js_or callback utils_noop)\<rparr> w)"
  using assms by (auto simp: sendPasswordResetEmail_def)

theorem sendPasswordResetEmail_posts_to_appHref_witness:
  "typeof (JStr ''jo@example.com'') = ''string''
   \<and> sendPasswordResetEmail example_client_org (JStr ''jo@example.com'') JUndefined example_world =
       (Inr (), execute
          \<lparr>req_method = ''POST'',
           req_url = ''https://x/v1/applications/app1/passwordResetTokens'',
           req_json = Some (JObj [(''email'', JStr ''jo@example.com'')]),
           req_callback = Callback utils_noop\<rparr> example_world)"
proof -
  have is_str: "typeof (JStr ''jo@example.com'') = ''string''"
    by simp
  then have "typeof (JStr ''jo@example.com'') = ''string''
      \<or> typeof (JStr ''jo@example.com'') = ''object''"
    by (rule disjI1)
  from sendPasswordResetEmail_posts_to_appHref
    [OF this, of example_client_org JUndefined example_world]
  have "sendPasswordResetEmail example_client_org (JStr ''jo@example.com'') JUndefined example_world =
       (Inr (), execute
          \<lparr>req_method = ''POST'',
           req_url = ''https://x/v1/applications/app1/passwordResetTokens'',
           req_json = Some (JObj [(''email'', JStr ''jo@example.com'')]),
           req_callback = Callback utils_noop\<rparr> example_world)"
    by (simp add: example_client_org_def js_or_def)
  with is_str show ?thesis
    by (intro conjI)
qed

text \<open>
  The claim as stated fails: for the client of claims with a truthy \<open>asnk\<close>, whose
  parent resource is the \<open>ash\<close> of the claims, the request goes to the application, not
  to the parent resource.
\<close>

theorem sendPasswordResetEmail_ignores_parent_resource:
  "get_prop (jwtPayload example_client_org) ''asnk'' = Inr (JStr ''org1'')
   \<and> truthy (JStr ''org1'')
   \<and> to_string (idSiteParentResource example_client_org) @ ''/passwordResetTokens''
        = ''https://x/v1/organizations/org1/passwordResetTokens''
   \<and> map req_url (executed (snd (sendPasswordResetEmail example_client_org
        (JStr ''jo@example.com'') JUndefined example_world)))
        = [''https://x/v1/applications/app1/passwordResetTokens'']"
  by (simp add: sendPasswordResetEmail_def example_client_org_def example_claims_org_def
      example_world_def execute_def)

text \<open>
  Claim C7, as the code has it. Called with a function, \<open>verifyEmailToken\<close> posts to
  \<open>baseurl\<close> followed by \<open>v1/accounts/emailVerificationTokens/\<close> and the single-use
  token converted to a string, with no body.
\<close>

theorem verifyEmailToken_url:
  assumes "typeof callback = ''function''"
  shows "verifyEmailToken c callback w =
           (Inr (), execute
              \<lparr>req_method = ''POST'',
               req_url = to_string (baseurl c) @ ''v1/accounts/emailVerificationTokens/''
                           @ to_string (sptoken c),
               req_json = None,
               req_callback = Callback callback\<rparr> w)"
  using assms by (simp add: verifyEmailToken_def)

theorem verifyEmailToken_url_witness:
  "typeof (JFun ''cb'') = ''function''
   \<and> verifyEmailToken example_client_reset (JFun ''cb'') example_world =
       (Inr (), execute
          \<lparr>req_method = ''POST'',
           req_url = ''https://x/v1/accounts/emailVerificationTokens/tok123'',
           req_json = None,
           req_callback = Callback (JFun ''cb'')\<rparr> example_world)"
proof -
  have is_fun: "typeof (JFun ''cb'') = ''function''"
    by simp
  from verifyEmailToken_url [OF this, of example_client_reset example_world]
  have "verifyEmailToken example_client_reset (JFun ''cb'') example_world =
       (Inr (), execute
          \<lparr>req_method = ''POST'',
           req_url = ''https://x/v1/accounts/emailVerificationTokens/tok123'',
           req_json = None,
           req_callback = Callback (JFun ''cb'')\<rparr> example_world)"
    by (simp add: example_client_reset_def)
  with is_fun show ?thesis
    by (intro conjI)
qed

text \<open>
  The claim as stated fails: for the client of the claims with
  \<open>appHref = https://x/v1/applications/app1\<close>, whose \<open>baseurl\<close> is \<open>https://x/\<close>, the
  URL is not \<open>baseurl\<close> followed by \<open>/accounts/emailVerificationTokens/\<close> and the token.
\<close>

theorem verifyEmailToken_url_has_v1:
  "to_string (baseurl example_client_reset) @ ''/accounts/emailVerificationTokens/''
      @ to_string (sptoken example_client_reset)
        = ''https://x//accounts/emailVerificationTokens/tok123''
   \<and> map req_url (executed (snd (verifyEmailToken example_client_reset (JFun ''cb'')
        example_world)))
        = [''https://x/v1/accounts/emailVerificationTokens/tok123'']"
  by (simp add: verifyEmailToken_def example_client_reset_def example_world_def execute_def)

section \<open>Login\<close>

lemma update_key_same: "map_of kvs k = Some v \<Longrightarrow> update_key k v kvs = kvs"
  by (induction kvs) (auto split: if_splits)

lemma login_null_credentials:
  "login P c JNull options callback w = (Inl (Error ''must provide an object''), w)"
  by (simp add: login_def login_data_def try_bind_def)

text \<open>
  Claim C8. \<open>login\<close> called with an object that has neither a \<open>login\<close> nor a
  \<open>providerData\<close> property throws \<open>unsupported credentials object\<close>, and
  \<open>requestExecutor.execute\<close> has not been called: the world is as it was.
\<close>

theorem login_rejects_unsupported_credentials:
  assumes "map_of kvs ''login'' = None" and "map_of kvs ''providerData'' = None"
  shows "login P c (JObj kvs) options callback w = (Inl (Error ''unsupported credentials object''), w)
       \<and> executed (snd (login P c (JObj kvs) options callback w)) = executed w"
  using assms by (simp add: login_def login_data_def try_bind_def)

theorem login_rejects_unsupported_credentials_witness:
  "map_of ([] :: (string \<times> jsval) list) ''login'' = None
   \<and> map_of ([] :: (string \<times> jsval) list) ''providerData'' = None
   \<and> (\<forall>P. login P example_client_reset (JObj []) JUndefined (JFun ''cb'') example_world
         = (Inl (Error ''unsupported credentials object''), example_world))
   \<and> (\<forall>P. executed (snd (login P example_client_reset (JObj []) JUndefined (JFun ''cb'')
         example_world)) = [])"
proof -
  have no_login: "map_of ([] :: (string \<times> jsval) list) ''login'' = None"
    by simp
  have no_provider: "map_of ([] :: (string \<times> jsval) list) ''providerData'' = None"
    by simp
  note thrown = login_rejects_unsupported_credentials [OF no_login no_provider]
  have a: "login P example_client_reset (JObj []) JUndefined (JFun ''cb'') example_world
         = (Inl (Error ''unsupported credentials object''), example_world)" for P
    using thrown [of P example_client_reset JUndefined "JFun ''cb''" example_world] by blast
  have b: "executed (snd (login P example_client_reset (JObj []) JUndefined (JFun ''cb'')
         example_world)) = []" for P
    using thrown [of P example_client_reset JUndefined "JFun ''cb''" example_world]
    by (simp add: example_world_def)
  show ?thesis
    using no_login no_provider a b by (intro conjI allI)
qed

text \<open>
  Claim C10. When the credentials hold a truthy \<open>providerData\<close>, the payload is the
  credentials object itself, also when it holds a \<open>login\<close>: the request carries it
  unchanged (unless encoding the redirect throws, and then there is no request). The
  payload of type \<open>basic\<close>, with the encoding of \<open>login:password\<close>, is built when
  \<open>providerData\<close> is absent (not truthy) and \<open>login\<close> is truthy.
\<close>

theorem login_providerData_precedence:
  "(map_of kvs ''providerData'' = Some providerData \<and> truthy providerData \<longrightarrow>
      login_data P (JObj kvs) = Inr (JObj kvs)
      \<and> login P c (JObj kvs) options callback w =
          (case login_queryString P options of
             Inl e \<Rightarrow> (Inl e, w)
           | Inr queryString \<Rightarrow>
               (Inr (), execute
                  \<lparr>req_method = ''POST'',
                   req_url = to_string (appHref c) @ ''/loginAttempts'' @ queryString,
                   req_json = Some (JObj kvs),
                   req_callback = Callback (js_or (if typeof options = ''function'' then options
                                                   else callback) utils_noop)\<rparr> w)))
   \<and> (get_prop (JObj kvs) ''providerData'' = Inr providerData \<and> \<not> truthy providerData
        \<and> map_of kvs ''login'' = Some login_field \<and> truthy login_field
        \<and> get_prop (JObj kvs) ''password'' = Inr password \<longrightarrow>
      login_data P (JObj kvs) =
        try_bind (base64Decode P (to_string login_field @ '':'' @ to_string password)) (\<lambda>v.
          Inr (JObj [(''type'', JStr ''basic''), (''value'', JStr v)])))"
proof (intro conjI impI)
  assume pd: "map_of kvs ''providerData'' = Some providerData \<and> truthy providerData"
  then show data: "login_data P (JObj kvs) = Inr (JObj kvs)"
    by (simp add: login_data_def try_bind_def)
  have store: "login_accountStore (JObj kvs) (JObj kvs) = Inr (JObj kvs)"
    by (auto simp: login_accountStore_def try_bind_def update_key_same split: option.splits)
  show "login P c (JObj kvs) options callback w =
          (case login_queryString P options of
             Inl e \<Rightarrow> (Inl e, w)
           | Inr queryString \<Rightarrow>
               (Inr (), execute
                  \<lparr>req_method = ''POST'',
                   req_url = to_string (appHref c) @ ''/loginAttempts'' @ queryString,
                   req_json = Some (JObj kvs),
                   req_callback = Callback (js_or (if typeof options = ''function'' then options
                                                   else callback) utils_noop)\<rparr> w))"
    using data store by (simp add: login_def try_bind_def split: sum.splits)
next
  assume "get_prop (JObj kvs) ''providerData'' = Inr providerData \<and> \<not> truthy providerData
        \<and> map_of kvs ''login'' = Some login_field \<and> truthy login_field
        \<and> get_prop (JObj kvs) ''password'' = Inr password"
  then show "login_data P (JObj kvs) =
        try_bind (base64Decode P (to_string login_field @ '':'' @ to_string password)) (\<lambda>v.
          Inr (JObj [(''type'', JStr ''basic''), (''value'', JStr v)]))"
    by (simp add: login_data_def try_bind_def)
qed

theorem login_providerData_precedence_witness:
  "map_of example_social_credentials ''providerData''
      = Some (JObj [(''providerId'', JStr ''google''), (''accessToken'', JStr ''abc'')])
   \<and> truthy (JObj [(''providerId'', JStr ''google''), (''accessToken'', JStr ''abc'')])
   \<and> map_of example_social_credentials ''login'' = Some (JStr ''jo'')
   \<and> (\<forall>P. login P example_client_reset (JObj example_social_credentials) JUndefined
          (JFun ''cb'') example_world =
        (Inr (), execute
           \<lparr>req_method = ''POST'',
            req_url = ''https://x/v1/applications/app1/loginAttempts'',
            req_json = Some (JObj example_social_credentials),
            req_callback = Callback (JFun ''cb'')\<rparr> example_world))
   \<and> get_prop (JObj example_password_credentials) ''providerData'' = Inr JUndefined
   \<and> \<not> truthy JUndefined
   \<and> map_of example_password_credentials ''login'' = Some (JStr ''jo'')
   \<and> truthy (JStr ''jo'')
   \<and> get_prop (JObj example_password_credentials) ''password'' = Inr (JStr ''pw'')
   \<and> (\<forall>P. login_data P (JObj example_password_credentials) =
        try_bind (base64Decode P ''jo:pw'') (\<lambda>v.
          Inr (JObj [(''type'', JStr ''basic''), (''value'', JStr v)])))"
proof -
  let ?pd = "JObj [(''providerId'', JStr ''google''), (''accessToken'', JStr ''abc'')]"
  have s1: "map_of example_social_credentials ''providerData'' = Some ?pd"
    by (simp add: example_social_credentials_def)
  have s2: "truthy ?pd"
    by simp
  have s3: "map_of example_social_credentials ''login'' = Some (JStr ''jo'')"
    by (simp add: example_social_credentials_def)
  have query: "login_queryString P JUndefined = Inr []" for P
    by (simp add: login_queryString_def)
  have social: "login P example_client_reset (JObj example_social_credentials) JUndefined
          (JFun ''cb'') example_world =
        (Inr (), execute
           \<lparr>req_method = ''POST'',
            req_url = ''https://x/v1/applications/app1/loginAttempts'',
            req_json = Some (JObj example_social_credentials),
            req_callback = Callback (JFun ''cb'')\<rparr> example_world)" for P
    using login_providerData_precedence
      [of example_social_credentials ?pd P example_client_reset JUndefined "JFun ''cb''"
        example_world] s1 s2 query [of P]
    by (simp add: example_client_reset_def js_or_def)
  have p1: "get_prop (JObj example_password_credentials) ''providerData'' = Inr JUndefined"
    by (simp add: example_password_credentials_def)
  have p2: "\<not> truthy JUndefined"
    by simp
  have p3: "map_of example_password_credentials ''login'' = Some (JStr ''jo'')"
    by (simp add: example_password_credentials_def)
  have p4: "truthy (JStr ''jo'')"
    by simp
  have p5: "get_prop (JObj example_password_credentials) ''password'' = Inr (JStr ''pw'')"
    by (simp add: example_password_credentials_def)
  have password: "login_data P (JObj example_password_credentials) =
        try_bind (base64Decode P ''jo:pw'') (\<lambda>v.
          Inr (JObj [(''type'', JStr ''basic''), (''value'', JStr v)]))" for P
    using login_providerData_precedence
      [of example_password_credentials JUndefined P _ _ _ _ "JStr ''jo''" "JStr ''pw''"]
      p1 p2 p3 p4 p5
    by simp
  show ?thesis
    using s1 s2 s3 social p1 p2 p3 p4 p5 password by (intro conjI allI)
qed

end
